theory Spec2Isabelle
  imports Complex_Main "HOL-Library.AList"
begin

section \<open>Chotu Dairy backend: products, sales and the reporting endpoints\<close>

text \<open>
  The handlers of \<^verbatim>\<open>app/route.py\<close> are embedded as functions over an explicit store.
  A handler that writes returns its response together with the store it leaves behind; a
  handler that only reads returns its response. A response is \<open>Inr\<close> of the value the
  handler returns or \<open>Inl\<close> of the failure that ends it: an \<open>HTTPException\<close> raised by the
  handler (status code and detail), or any other exception, which nothing in
  \<^verbatim>\<open>app/main.py\<close> handles and which the framework therefore answers with status 500.

  The columns declared \<^verbatim>\<open>Float\<close> are modelled as exact reals: rounding of the
  floating-point sums is outside this development. The \<^verbatim>\<open>created_at\<close> columns are
  read by no handler and are left out.
\<close>

subsection \<open>Failures\<close>

datatype py_exception =
    IllegalMonthError int
  | OverflowError
  | KeyError string
  | IndexError
  | ValueError
  | DataError

datatype failure =
    HTTPException int string
  | Unhandled py_exception

type_synonym 'a response = "failure + 'a"

text \<open>The status the client sees.\<close>

definition status_code :: "'a response \<Rightarrow> int" where
  "status_code r =
     (case r of
        Inr _ \<Rightarrow> 200
      | Inl (HTTPException code _) \<Rightarrow> code
      | Inl (Unhandled _) \<Rightarrow> 500)"

subsection \<open>Calendar dates as Python's \<^verbatim>\<open>datetime.date\<close> has them\<close>

record date =
  year :: int
  month :: int
  day :: int

definition MINYEAR :: int where "MINYEAR = 1"
definition MAXYEAR :: int where "MAXYEAR = 9999"

definition is_leap :: "int \<Rightarrow> bool" where
  "is_leap y = (y mod 4 = 0 \<and> (y mod 100 \<noteq> 0 \<or> y mod 400 = 0))"

definition days_before_year :: "int \<Rightarrow> int" where
  "days_before_year y = (let y' = y - 1 in y' * 365 + y' div 4 - y' div 100 + y' div 400)"

text \<open>The tables \<^verbatim>\<open>_DAYS_IN_MONTH\<close> and \<^verbatim>\<open>_DAYS_BEFORE_MONTH\<close>, index 0 unused.\<close>

definition DAYS_IN_MONTH :: "int list" where
  "DAYS_IN_MONTH = [-1, 31, 28, 31, 30, 31, 30, 31, 31, 30, 31, 30, 31]"

definition DAYS_BEFORE_MONTH :: "int list" where
  "DAYS_BEFORE_MONTH = [-1, 0, 31, 59, 90, 120, 151, 181, 212, 243, 273, 304, 334]"

definition days_in_month :: "int \<Rightarrow> int \<Rightarrow> int" where
  "days_in_month y m =
     (if m = 2 \<and> is_leap y then 29 else DAYS_IN_MONTH ! nat m)"

definition days_before_month :: "int \<Rightarrow> int \<Rightarrow> int" where
  "days_before_month y m =
     DAYS_BEFORE_MONTH ! nat m + (if m > 2 \<and> is_leap y then 1 else 0)"


definition toordinal :: "date \<Rightarrow> int" where
  "toordinal d = days_before_year (year d) + days_before_month (year d) (month d) + day d"

definition weekday :: "date \<Rightarrow> int" where
  "weekday d = (toordinal d + 6) mod 7"

definition isoweekday :: "date \<Rightarrow> int" where
  "isoweekday d = (let r = toordinal d mod 7 in if r = 0 then 7 else r)"

text \<open>\<^verbatim>\<open>(d2 - d1).days\<close>\<close>

definition days_between :: "date \<Rightarrow> date \<Rightarrow> int" where
  "days_between d2 d1 = toordinal d2 - toordinal d1"

text \<open>
  SQL \<^verbatim>\<open>BETWEEN\<close> on a date column: inclusive at both ends, in the order of the day
  numbers.
\<close>

definition between :: "date \<Rightarrow> date \<Rightarrow> date \<Rightarrow> bool" where
  "between d lo hi \<longleftrightarrow> toordinal lo \<le> toordinal d \<and> toordinal d \<le> toordinal hi"

subsection \<open>Tables and the store\<close>

text \<open>
  \<^verbatim>\<open>Product.id\<close> and \<^verbatim>\<open>Sales.id\<close> are the fields \<open>p_id\<close> and \<open>s_id\<close>; the primary
  keys are drawn from one sequence per table.
\<close>

record product =
  p_id :: int
  product_name :: string
  price :: real

record sales =
  s_id :: int
  name :: string
  product_id :: int
  quantity :: int
  total_price :: real
  sale_date :: date

record store =
  products :: "product list"
  sales_rows :: "sales list"
  products_id_seq :: int
  sales_id_seq :: int






subsection \<open>Product and sales routes\<close>


definition get_products :: "store \<Rightarrow> product list response" where
  "get_products db = Inr (products db)"


definition delete_product :: "int \<Rightarrow> store \<Rightarrow> string response \<times> store" where
  "delete_product pid db =
     (case find (\<lambda>p. p_id p = pid) (products db) of
        None \<Rightarrow> (Inl (HTTPException 404 ''Product not found''), db)
      | Some product_row \<Rightarrow>
          (case find (\<lambda>s. product_id s = pid) (sales_rows db) of
             Some sales_exists \<Rightarrow>
               (Inl (HTTPException 400 ''Cannot delete: Product is used in sales records''), db)
           | None \<Rightarrow>
               (Inr ''Product deleted successfully'',
                db\<lparr>products := filter (\<lambda>p. p_id p \<noteq> p_id product_row) (products db)\<rparr>)))"

subsection \<open>What the handlers use of SQL and of Python\<close>

text \<open>
  \<^verbatim>\<open>GROUP BY key\<close> with \<^verbatim>\<open>SUM(val)\<close>: one row per key that occurs, carrying the
  sum over the rows of that key. SQL fixes no order of the groups; the model lists them in
  the order of \<open>remdups\<close>.
\<close>

definition group_sum :: "('r \<Rightarrow> 'k) \<Rightarrow> ('r \<Rightarrow> 'v::comm_monoid_add) \<Rightarrow> 'r list \<Rightarrow> ('k \<times> 'v) list" where
  "group_sum key val rows =
     map (\<lambda>k. (k, sum_list (map val (filter (\<lambda>r. key r = k) rows)))) (remdups (map key rows))"



text \<open>\<^verbatim>\<open>xs[i]\<close> on a sequence: an index below zero is taken from the end, one outside the sequence raises.\<close>

definition py_index :: "'a list \<Rightarrow> int \<Rightarrow> 'a response" where
  "py_index xs i =
     (if 0 \<le> i \<and> i < int (length xs) then Inr (xs ! nat i)
      else if i < 0 \<and> - int (length xs) \<le> i then Inr (xs ! nat (int (length xs) + i))
      else Inl (Unhandled IndexError))"

text \<open>
  A Python dict keeps its keys in insertion order: an association list, written with
  \<open>AList.update\<close> (an existing key keeps its place, a new key goes to the end).
  \<^verbatim>\<open>[{..., "total": d[k]} for k in ks]\<close> reads every key of \<open>ks\<close> and raises at the first
  missing one.
\<close>

fun items_for :: "string list \<Rightarrow> (string \<times> real) list \<Rightarrow> (string \<times> real) list response" where
  "items_for [] d = Inr []"
| "items_for (k # ks) d =
     (case map_of d k of
        None \<Rightarrow> Inl (Unhandled (KeyError k))
      | Some v \<Rightarrow>
          (case items_for ks d of
             Inl e \<Rightarrow> Inl e
           | Inr rest \<Rightarrow> Inr ((k, v) # rest)))"

text \<open>\<^verbatim>\<open>str\<close> of an integer and \<^verbatim>\<open>int\<close> of a string of decimal digits with an optional sign.\<close>

definition digit_char :: "nat \<Rightarrow> char" where
  "digit_char n = char_of (48 + n)"

fun str_nat :: "nat \<Rightarrow> string" where
  "str_nat n = (if n < 10 then [digit_char n] else str_nat (n div 10) @ [digit_char (n mod 10)])"

definition py_str :: "int \<Rightarrow> string" where
  "py_str i = (if i < 0 then CHR ''-'' # str_nat (nat (- i)) else str_nat (nat i))"

definition is_digit :: "char \<Rightarrow> bool" where
  "is_digit c \<longleftrightarrow> 48 \<le> (of_char c :: nat) \<and> (of_char c :: nat) \<le> 57"

fun parse_digits :: "nat \<Rightarrow> string \<Rightarrow> nat option" where
  "parse_digits acc [] = Some acc"
| "parse_digits acc (c # cs) =
     (if is_digit c then parse_digits (10 * acc + (of_char c - 48)) cs else None)"

definition py_int :: "string \<Rightarrow> int option" where
  "py_int s =
     (case s of
        [] \<Rightarrow> None
      | c # cs \<Rightarrow>
          if c = CHR ''-''
          then (if cs = [] then None else map_option (\<lambda>n. - int n) (parse_digits 0 cs))
          else map_option int (parse_digits 0 s))"

text \<open>\<^verbatim>\<open>sorted(keys, key=int)\<close>: a stable sort on the parsed keys.\<close>

definition sorted_by_int :: "string list \<Rightarrow> string list response" where
  "sorted_by_int keys =
     (case those (map py_int keys) of
        None \<Rightarrow> Inl (Unhandled ValueError)
      | Some ns \<Rightarrow> Inr (map snd (sort_key fst (zip ns keys))))"

text \<open>The \<^verbatim>\<open>calendar\<close> module, in the C locale.\<close>

definition day_name :: "string list" where
  "day_name = [''Monday'', ''Tuesday'', ''Wednesday'', ''Thursday'', ''Friday'', ''Saturday'',
               ''Sunday'']"


definition mdays :: "int list" where
  "mdays = [0, 31, 28, 31, 30, 31, 30, 31, 31, 30, 31, 30, 31]"

definition isleap :: "int \<Rightarrow> bool" where
  "isleap y = (y mod 4 = 0 \<and> (y mod 100 \<noteq> 0 \<or> y mod 400 = 0))"

definition calendar_weekday :: "int \<Rightarrow> int \<Rightarrow> int \<Rightarrow> int" where
  "calendar_weekday y m d =
     (let y' = (if \<not> (MINYEAR \<le> y \<and> y \<le> MAXYEAR) then 2000 + y mod 400 else y)
      in weekday \<lparr>year = y', month = m, day = d\<rparr>)"

definition monthrange :: "int \<Rightarrow> int \<Rightarrow> (int \<times> int) response" where
  "monthrange y m =
     (if \<not> (1 \<le> m \<and> m \<le> 12) then Inl (Unhandled (IllegalMonthError m))
      else (let day1 = calendar_weekday y m 1;
                ndays = mdays ! nat m + (if m = 2 \<and> isleap y then 1 else 0)
            in Inr (day1, ndays)))"





subsection \<open>Weekly, monthly and yearly charts\<close>

definition ordered_days :: "string list" where
  "ordered_days = [''Sun'', ''Mon'', ''Tue'', ''Wed'', ''Thu'', ''Fri'', ''Sat'']"

text \<open>The detail of the third check holds a right arrow (U+2192), three bytes in UTF-8.\<close>

definition full_week_detail :: string where
  "full_week_detail =
     ''Dates must form a full week (Sunday '' @ [CHR 0xE2, CHR 0x86, CHR 0x92] @ '' Saturday)''"

text \<open>The loop \<^verbatim>\<open>weekday_totals[weekday_name] += float(row.total)\<close>.\<close>

fun fill_weekday_totals ::
  "(date \<times> real) list \<Rightarrow> (string \<times> real) list \<Rightarrow> (string \<times> real) list response" where
  "fill_weekday_totals [] weekday_totals = Inr weekday_totals"
| "fill_weekday_totals (row # results) weekday_totals =
     (case py_index day_name (weekday (fst row)) of
        Inl e \<Rightarrow> Inl e
      | Inr full_name \<Rightarrow>
          (let weekday_name = take 3 full_name
           in case map_of weekday_totals weekday_name of
                None \<Rightarrow> Inl (Unhandled (KeyError weekday_name))
              | Some v \<Rightarrow>
                  fill_weekday_totals results
                    (AList.update weekday_name (v + snd row) weekday_totals)))"

definition get_weekly_sales :: "date \<Rightarrow> date \<Rightarrow> store \<Rightarrow> (string \<times> real) list response" where
  "get_weekly_sales start_date end_date db =
     (if isoweekday start_date \<noteq> 7 then Inl (HTTPException 400 ''Start date must be a Sunday'')
      else if isoweekday end_date \<noteq> 6 then Inl (HTTPException 400 ''End date must be a Saturday'')
      else if days_between end_date start_date \<noteq> 6 then Inl (HTTPException 400 full_week_detail)
      else
        (let weekday_totals = map (\<lambda>d. (d, 0)) ordered_days;
             results = group_sum sale_date total_price
                         (filter (\<lambda>s. between (sale_date s) start_date end_date) (sales_rows db))
         in case fill_weekday_totals results weekday_totals of
              Inl e \<Rightarrow> Inl e
            | Inr weekday_totals' \<Rightarrow> items_for ordered_days weekday_totals'))"

text \<open>The loop \<^verbatim>\<open>day_totals[str(row.date.day)] = float(row.total)\<close>.\<close>

definition fill_day_totals ::
  "(date \<times> real) list \<Rightarrow> (string \<times> real) list \<Rightarrow> (string \<times> real) list" where
  "fill_day_totals results day_totals =
     fold (\<lambda>row dt. AList.update (py_str (day (fst row))) (snd row) dt) results day_totals"

definition get_monthly_sales :: "int \<Rightarrow> int \<Rightarrow> store \<Rightarrow> (string \<times> real) list response" where
  "get_monthly_sales year_q month_q db =
     (case monthrange year_q month_q of
        Inl e \<Rightarrow> Inl e
      | Inr (day1, num_days) \<Rightarrow>
          (let day_totals = map (\<lambda>d. (py_str d, 0)) [1..num_days];
               results = group_sum sale_date total_price
                           (filter (\<lambda>s. year (sale_date s) = year_q \<and> month (sale_date s) = month_q)
                              (sales_rows db));
               day_totals' = fill_day_totals results day_totals
           in case sorted_by_int (map fst day_totals') of
                Inl e \<Rightarrow> Inl e
              | Inr keys \<Rightarrow> items_for keys day_totals'))"



subsection \<open>Summary and top products\<close>








subsection \<open>A small store for the concrete checks\<close>

definition example_store :: store where
  "example_store =
     \<lparr>products = [\<lparr>p_id = 1, product_name = ''Milk 1L'', price = 50\<rparr>,
                  \<lparr>p_id = 2, product_name = ''Curd'', price = 30\<rparr>,
                  \<lparr>p_id = 3, product_name = ''Ghee'', price = 600\<rparr>],
      sales_rows = [\<lparr>s_id = 1, name = ''counter'', product_id = 1, quantity = 3, total_price = 150,
                     sale_date = \<lparr>year = 2024, month = 6, day = 2\<rparr>\<rparr>,
                    \<lparr>s_id = 2, name = ''counter'', product_id = 2, quantity = 7, total_price = 210,
                     sale_date = \<lparr>year = 2024, month = 6, day = 5\<rparr>\<rparr>,
                    \<lparr>s_id = 3, name = ''home'', product_id = 1, quantity = 7, total_price = 340,
                     sale_date = \<lparr>year = 2024, month = 6, day = 5\<rparr>\<rparr>,
                    \<lparr>s_id = 4, name = ''home'', product_id = 2, quantity = 0, total_price = 25,
                     sale_date = \<lparr>year = 2024, month = 2, day = 29\<rparr>\<rparr>],
      products_id_seq = 4, sales_id_seq = 5\<rparr>"

text \<open>
  The bucket a date falls into: the first three letters of the name of its weekday.
\<close>

definition weekday_name :: "date \<Rightarrow> string" where
  "weekday_name d = take 3 (day_name ! nat (weekday d))"


section \<open>Properties\<close>

subsection \<open>Product and sales routes\<close>

lemma find_None_image: "find (\<lambda>x. f x = k) xs = None \<longleftrightarrow> k \<notin> f ` set xs"
  by (auto simp: find_None_iff)

lemma find_Some_image: "k \<in> f ` set xs \<Longrightarrow> \<exists>x. find (\<lambda>x. f x = k) xs = Some x \<and> f x = k \<and> x \<in> set xs"
  by (induction xs) auto




text \<open>
  C6. Deleting an unknown id is answered with 404; deleting a product that some sale
  references is answered with the 400 of the conflict, the store is the one before and
  the product is still in the table; otherwise the product's row is removed and the
  handler reports success.
\<close>

theorem delete_product_cases:
  "(pid \<notin> p_id ` set (products db) \<longrightarrow>
      delete_product pid db = (Inl (HTTPException 404 ''Product not found''), db)) \<and>
   (pid \<in> p_id ` set (products db) \<and> pid \<in> product_id ` set (sales_rows db) \<longrightarrow>
      delete_product pid db =
        (Inl (HTTPException 400 ''Cannot delete: Product is used in sales records''), db) \<and>
      (\<exists>p \<in> set (products (snd (delete_product pid db))). p_id p = pid)) \<and>
   (pid \<in> p_id ` set (products db) \<and> pid \<notin> product_id ` set (sales_rows db) \<longrightarrow>
      delete_product pid db =
        (Inr ''Product deleted successfully'',
         db\<lparr>products := filter (\<lambda>p. p_id p \<noteq> pid) (products db)\<rparr>) \<and>
      pid \<notin> p_id ` set (products (snd (delete_product pid db))))"
proof (intro conjI impI)
  assume "pid \<notin> p_id ` set (products db)"
  then have "find (\<lambda>p. p_id p = pid) (products db) = None"
    by (simp add: find_None_image)
  then show "delete_product pid db = (Inl (HTTPException 404 ''Product not found''), db)"
    by (simp add: delete_product_def)
next
  assume a: "pid \<in> p_id ` set (products db) \<and> pid \<in> product_id ` set (sales_rows db)"
  then obtain p where p: "find (\<lambda>p. p_id p = pid) (products db) = Some p"
    using find_Some_image [of pid p_id "products db"] by blast
  from a obtain s where s: "find (\<lambda>s. product_id s = pid) (sales_rows db) = Some s"
    using find_Some_image [of pid product_id "sales_rows db"] by blast
  from p s show r: "delete_product pid db =
        (Inl (HTTPException 400 ''Cannot delete: Product is used in sales records''), db)"
    by (simp add: delete_product_def)
  from a show "\<exists>p \<in> set (products (snd (delete_product pid db))). p_id p = pid"
    unfolding r by auto
next
  assume a: "pid \<in> p_id ` set (products db) \<and> pid \<notin> product_id ` set (sales_rows db)"
  then obtain p where p: "find (\<lambda>p. p_id p = pid) (products db) = Some p" and pp: "p_id p = pid"
    using find_Some_image [of pid p_id "products db"] by blast
  from a have s: "find (\<lambda>s. product_id s = pid) (sales_rows db) = None"
    by (simp add: find_None_image)
  from p pp s show r: "delete_product pid db =
        (Inr ''Product deleted successfully'',
         db\<lparr>products := filter (\<lambda>p. p_id p \<noteq> pid) (products db)\<rparr>)"
    by (simp add: delete_product_def)
  show "pid \<notin> p_id ` set (products (snd (delete_product pid db)))"
    unfolding r by auto
qed

text \<open>
  C10. For a month outside 1..12, \<open>monthrange\<close> raises before anything else happens:
  the handler returns no buckets and raises no \<open>HTTPException\<close>, so the answer is a 500.
\<close>

theorem get_monthly_sales_bad_month:
  "month_q < 1 \<or> 12 < month_q \<Longrightarrow>
     get_monthly_sales year_q month_q db = Inl (Unhandled (IllegalMonthError month_q)) \<and>
     status_code (get_monthly_sales year_q month_q db) = 500"
  by (auto simp: get_monthly_sales_def monthrange_def status_code_def)

text \<open>C10 at month 13.\<close>

theorem get_monthly_sales_bad_month_witness:
  "((13::int) < 1 \<or> 12 < (13::int)) \<and>
   get_monthly_sales 2024 13 example_store = Inl (Unhandled (IllegalMonthError 13)) \<and>
   status_code (get_monthly_sales 2024 13 example_store) = 500"
  using get_monthly_sales_bad_month [of 13 2024 example_store] by (simp add: status_code_def)


text \<open>The three cases of C6 on the example store.\<close>

theorem delete_product_cases_witness:
  "(9 \<notin> p_id ` set (products example_store) \<and>
    delete_product 9 example_store = (Inl (HTTPException 404 ''Product not found''), example_store)) \<and>
   (1 \<in> p_id ` set (products example_store) \<and> 1 \<in> product_id ` set (sales_rows example_store) \<and>
    delete_product 1 example_store =
      (Inl (HTTPException 400 ''Cannot delete: Product is used in sales records''), example_store)) \<and>
   (3 \<in> p_id ` set (products example_store) \<and> 3 \<notin> product_id ` set (sales_rows example_store) \<and>
    fst (delete_product 3 example_store) = Inr ''Product deleted successfully'' \<and>
    map p_id (products (snd (delete_product 3 example_store))) = [1, 2])"
  using delete_product_cases [of 9 example_store] delete_product_cases [of 1 example_store]
    delete_product_cases [of 3 example_store]
  by (simp add: example_store_def)

subsection \<open>Weekly chart\<close>

lemma weekday_range: "0 \<le> weekday d \<and> weekday d < 7"
  by (simp add: weekday_def)

lemma py_index_day_name: "py_index day_name (weekday d) = Inr (day_name ! nat (weekday d))"
  using weekday_range [of d] by (simp add: py_index_def day_name_def)

lemma weekday_name_in: "weekday_name d \<in> set ordered_days"
proof -
  have "weekday d = 0 \<or> weekday d = 1 \<or> weekday d = 2 \<or> weekday d = 3 \<or> weekday d = 4
      \<or> weekday d = 5 \<or> weekday d = 6"
    using weekday_range [of d] by arith
  then show ?thesis
    by (auto simp: weekday_name_def day_name_def ordered_days_def)
qed

lemma sum_list_single_key:
  fixes c :: "'v::comm_monoid_add"
  shows "distinct ks \<Longrightarrow> k \<in> set ks \<Longrightarrow> sum_list (map (\<lambda>k'. if k = k' then c else 0) ks) = c"
proof (induction ks)
  case Nil
  then show ?case by simp
next
  case (Cons a ks)
  show ?case
  proof (cases "k = a")
    case True
    with Cons.prems have "k \<notin> set ks" by simp
    then have "sum_list (map (\<lambda>k'. if k = k' then c else 0) ks) = 0"
      by (induction ks) auto
    with True show ?thesis by simp
  next
    case False
    with Cons show ?thesis by simp
  qed
qed

lemma sum_by_key:
  fixes val :: "'r \<Rightarrow> 'v::comm_monoid_add"
  assumes "distinct ks"
  shows "\<forall>r \<in> set rows. key r \<in> set ks \<Longrightarrow>
     sum_list (map (\<lambda>k. sum_list (map val (filter (\<lambda>r. key r = k) rows))) ks) =
     sum_list (map val rows)"
proof (induction rows)
  case Nil
  then show ?case by simp
next
  case (Cons r rows)
  have "sum_list (map (\<lambda>k. sum_list (map val (filter (\<lambda>r. key r = k) (r # rows)))) ks) =
        sum_list (map (\<lambda>k. (if key r = k then val r else 0) +
                           sum_list (map val (filter (\<lambda>r. key r = k) rows))) ks)"
    by (rule arg_cong [where f = sum_list], rule map_cong) auto
  also have "\<dots> = sum_list (map (\<lambda>k. if key r = k then val r else 0) ks) +
                   sum_list (map (\<lambda>k. sum_list (map val (filter (\<lambda>r. key r = k) rows))) ks)"
    by (rule sum_list_addf)
  also have "\<dots> = val r + sum_list (map val rows)"
    using Cons assms by (simp add: sum_list_single_key)
  finally show ?case by simp
qed

lemma group_sum_filter:
  fixes val :: "'r \<Rightarrow> 'v::comm_monoid_add"
  shows "sum_list (map snd (filter (\<lambda>row. P (fst row)) (group_sum key val rows))) =
         sum_list (map val (filter (\<lambda>r. P (key r)) rows))"
proof -
  let ?ks = "filter P (remdups (map key rows))"
  let ?rows = "filter (\<lambda>r. P (key r)) rows"
  have "map snd (filter (\<lambda>row. P (fst row)) (group_sum key val rows)) =
        map (\<lambda>k. sum_list (map val (filter (\<lambda>r. key r = k) rows))) ?ks"
    by (simp add: group_sum_def filter_map comp_def)
  also have "\<dots> = map (\<lambda>k. sum_list (map val (filter (\<lambda>r. key r = k) ?rows))) ?ks"
    by (rule map_cong) (auto intro!: arg_cong [where f = sum_list] arg_cong [where f = "map val"] filter_cong)
  finally have "sum_list (map snd (filter (\<lambda>row. P (fst row)) (group_sum key val rows))) =
        sum_list (map (\<lambda>k. sum_list (map val (filter (\<lambda>r. key r = k) ?rows))) ?ks)"
    by simp
  also have "\<dots> = sum_list (map val ?rows)"
    by (rule sum_by_key) auto
  finally show ?thesis .
qed

lemma items_for_present:
  "\<forall>k \<in> set ks. map_of d k = Some (f k) \<Longrightarrow> items_for ks d = Inr (map (\<lambda>k. (k, f k)) ks)"
  by (induction ks) auto

lemma fill_weekday_totals_ok:
  "distinct (map fst wt) \<Longrightarrow> set ordered_days \<subseteq> fst ` set wt \<Longrightarrow>
     \<exists>wt'. fill_weekday_totals rows wt = Inr wt' \<and> map fst wt' = map fst wt \<and>
       (\<forall>k v. map_of wt k = Some v \<longrightarrow>
          map_of wt' k =
            Some (v + sum_list (map snd (filter (\<lambda>row. weekday_name (fst row) = k) rows))))"
proof (induction rows arbitrary: wt)
  case Nil
  then show ?case by simp
next
  case (Cons row rows)
  let ?n = "weekday_name (fst row)"
  have "?n \<in> fst ` set wt"
    using Cons.prems(2) weekday_name_in by blast
  then obtain v where v: "map_of wt ?n = Some v"
    by (metis map_of_eq_None_iff not_Some_eq)
  let ?wt = "AList.update ?n (v + snd row) wt"
  have keys: "map fst ?wt = map fst wt"
    using \<open>?n \<in> fst ` set wt\<close> by (simp add: update_keys)
  then have pre: "distinct (map fst ?wt)" "set ordered_days \<subseteq> fst ` set ?wt"
    using Cons.prems by (simp_all add: dom_update insert_absorb \<open>?n \<in> fst ` set wt\<close>)
  from Cons.IH [OF pre]
  obtain wt' where wt': "fill_weekday_totals rows ?wt = Inr wt'" "map fst wt' = map fst ?wt"
      and tot: "\<And>k v. map_of ?wt k = Some v \<Longrightarrow>
          map_of wt' k =
            Some (v + sum_list (map snd (filter (\<lambda>row. weekday_name (fst row) = k) rows)))"
    by blast
  have run: "fill_weekday_totals (row # rows) wt = Inr wt'"
    using v wt'(1) by (simp add: py_index_day_name weekday_name_def)
  have "map_of wt' k =
          Some (u + sum_list (map snd (filter (\<lambda>row. weekday_name (fst row) = k) (row # rows))))"
    if u: "map_of wt k = Some u" for k u
  proof (cases "k = ?n")
    case True
    with u v have "u = v" by simp
    have "map_of ?wt k = Some (v + snd row)"
      using True by (simp add: update_conv')
    from tot [OF this] show ?thesis
      using True \<open>u = v\<close> by (simp add: add.assoc)
  next
    case False
    then have "map_of ?wt k = Some u"
      using u by (simp add: update_conv')
    from tot [OF this] show ?thesis
      using False by auto
  qed
  with run wt'(2) keys show ?case by simp
qed

text \<open>
  What the handler returns once the three checks have passed.
\<close>

lemma weekly_buckets:
  assumes "isoweekday start_date = 7" "isoweekday end_date = 6"
    "days_between end_date start_date = 6"
  shows "get_weekly_sales start_date end_date db =
     Inr (map (\<lambda>k. (k, sum_list (map total_price
                 (filter (\<lambda>x. between (sale_date x) start_date end_date \<and>
                              weekday_name (sale_date x) = k) (sales_rows db)))))
            ordered_days)"
proof -
  let ?rows = "filter (\<lambda>s. between (sale_date s) start_date end_date) (sales_rows db)"
  let ?results = "group_sum sale_date total_price ?rows"
  let ?init = "map (\<lambda>d. (d, 0::real)) ordered_days"
  have "distinct (map fst ?init)" "set ordered_days \<subseteq> fst ` set ?init"
    by (simp_all add: ordered_days_def)
  from fill_weekday_totals_ok [OF this, of ?results]
  obtain wt' where wt': "fill_weekday_totals ?results ?init = Inr wt'"
      and tot: "\<And>k v. map_of ?init k = Some v \<Longrightarrow>
          map_of wt' k =
            Some (v + sum_list (map snd (filter (\<lambda>row. weekday_name (fst row) = k) ?results)))"
    by blast
  have "map_of wt' k = Some (sum_list (map total_price
          (filter (\<lambda>x. between (sale_date x) start_date end_date \<and>
                       weekday_name (sale_date x) = k) (sales_rows db))))"
    if "k \<in> set ordered_days" for k
  proof -
    have "map_of ?init k = Some 0"
      using that by (auto simp: ordered_days_def)
    from tot [OF this]
    have "map_of wt' k =
        Some (sum_list (map snd (filter (\<lambda>row. weekday_name (fst row) = k) ?results)))"
      by simp
    also have "sum_list (map snd (filter (\<lambda>row. weekday_name (fst row) = k) ?results)) =
        sum_list (map total_price (filter (\<lambda>r. weekday_name (sale_date r) = k) ?rows))"
      by (rule group_sum_filter [where P = "\<lambda>d. weekday_name d = k"])
    also have "filter (\<lambda>r. weekday_name (sale_date r) = k) ?rows =
        filter (\<lambda>x. between (sale_date x) start_date end_date \<and>
                       weekday_name (sale_date x) = k) (sales_rows db)"
      by (simp add: conj_commute)
    finally show ?thesis .
  qed
  then have "items_for ordered_days wt' =
     Inr (map (\<lambda>k. (k, sum_list (map total_price
                 (filter (\<lambda>x. between (sale_date x) start_date end_date \<and>
                              weekday_name (sale_date x) = k) (sales_rows db)))))
            ordered_days)"
    by (intro items_for_present) simp
  with assms wt' show ?thesis
    by (simp add: get_weekly_sales_def)
qed


lemmas calendar_eval =
  isoweekday_def weekday_def toordinal_def days_before_year_def days_before_month_def
  days_in_month_def DAYS_BEFORE_MONTH_def DAYS_IN_MONTH_def is_leap_def days_between_def
  between_def Let_def

lemma sunday_plus_six:
  assumes "isoweekday start_date = 7" "days_between end_date start_date = 6"
  shows "isoweekday end_date = 6"
proof -
  have "toordinal start_date mod 7 = 0"
    using assms(1) by (auto simp: isoweekday_def Let_def split: if_splits)
  moreover have "toordinal end_date = toordinal start_date + 6"
    using assms(2) by (simp add: days_between_def)
  ultimately have "toordinal end_date mod 7 = 6"
    by presburger
  then show ?thesis
    by (simp add: isoweekday_def)
qed

text \<open>
  C2 (as the code has it). The three checks are made in this order and the first that
  fails decides the answer, always with status 400: a start that is no Sunday, then an end
  that is no Saturday, then a span other than six days, whose detail is the longer text
  \<open>full_week_detail\<close>. The handler returns buckets exactly when the start is a Sunday and
  the end lies six days after it.
\<close>

theorem get_weekly_sales_validation:
  "(isoweekday start_date \<noteq> 7 \<longrightarrow>
      get_weekly_sales start_date end_date db =
        Inl (HTTPException 400 ''Start date must be a Sunday'')) \<and>
   (isoweekday start_date = 7 \<and> isoweekday end_date \<noteq> 6 \<longrightarrow>
      get_weekly_sales start_date end_date db =
        Inl (HTTPException 400 ''End date must be a Saturday'')) \<and>
   (isoweekday start_date = 7 \<and> isoweekday end_date = 6 \<and>
    days_between end_date start_date \<noteq> 6 \<longrightarrow>
      get_weekly_sales start_date end_date db = Inl (HTTPException 400 full_week_detail)) \<and>
   ((\<exists>buckets. get_weekly_sales start_date end_date db = Inr buckets) \<longleftrightarrow>
      isoweekday start_date = 7 \<and> days_between end_date start_date = 6)"
proof (intro conjI impI)
  show "(\<exists>buckets. get_weekly_sales start_date end_date db = Inr buckets) \<longleftrightarrow>
      isoweekday start_date = 7 \<and> days_between end_date start_date = 6"
  proof
    assume "\<exists>buckets. get_weekly_sales start_date end_date db = Inr buckets"
    then show "isoweekday start_date = 7 \<and> days_between end_date start_date = 6"
      by (auto simp: get_weekly_sales_def split: if_splits)
  next
    assume a: "isoweekday start_date = 7 \<and> days_between end_date start_date = 6"
    then have "isoweekday end_date = 6"
      using sunday_plus_six by blast
    with a show "\<exists>buckets. get_weekly_sales start_date end_date db = Inr buckets"
      using weekly_buckets [of start_date end_date db] by simp
  qed
qed (simp_all add: get_weekly_sales_def)

text \<open>
  The four outcomes of C2 on dates of June 2024.
\<close>

theorem get_weekly_sales_validation_witness:
  "(isoweekday \<lparr>year = 2024, month = 6, day = 3\<rparr> \<noteq> 7 \<and>
    get_weekly_sales \<lparr>year = 2024, month = 6, day = 3\<rparr> \<lparr>year = 2024, month = 6, day = 8\<rparr>
      example_store = Inl (HTTPException 400 ''Start date must be a Sunday'')) \<and>
   (isoweekday \<lparr>year = 2024, month = 6, day = 2\<rparr> = 7 \<and>
    isoweekday \<lparr>year = 2024, month = 6, day = 7\<rparr> \<noteq> 6 \<and>
    get_weekly_sales \<lparr>year = 2024, month = 6, day = 2\<rparr> \<lparr>year = 2024, month = 6, day = 7\<rparr>
      example_store = Inl (HTTPException 400 ''End date must be a Saturday'')) \<and>
   (isoweekday \<lparr>year = 2024, month = 6, day = 15\<rparr> = 6 \<and>
    days_between \<lparr>year = 2024, month = 6, day = 15\<rparr> \<lparr>year = 2024, month = 6, day = 2\<rparr> \<noteq> 6 \<and>
    get_weekly_sales \<lparr>year = 2024, month = 6, day = 2\<rparr> \<lparr>year = 2024, month = 6, day = 15\<rparr>
      example_store = Inl (HTTPException 400 full_week_detail)) \<and>
   (days_between \<lparr>year = 2024, month = 6, day = 8\<rparr> \<lparr>year = 2024, month = 6, day = 2\<rparr> = 6 \<and>
    (\<exists>buckets. get_weekly_sales \<lparr>year = 2024, month = 6, day = 2\<rparr>
       \<lparr>year = 2024, month = 6, day = 8\<rparr> example_store = Inr buckets))"
proof -
  have h: "isoweekday \<lparr>year = 2024, month = 6, day = 3\<rparr> \<noteq> 7"
    "isoweekday \<lparr>year = 2024, month = 6, day = 2\<rparr> = 7"
    "isoweekday \<lparr>year = 2024, month = 6, day = 7\<rparr> \<noteq> 6"
    "isoweekday \<lparr>year = 2024, month = 6, day = 15\<rparr> = 6"
    "days_between \<lparr>year = 2024, month = 6, day = 15\<rparr> \<lparr>year = 2024, month = 6, day = 2\<rparr> \<noteq> 6"
    "days_between \<lparr>year = 2024, month = 6, day = 8\<rparr> \<lparr>year = 2024, month = 6, day = 2\<rparr> = 6"
    by (simp_all add: calendar_eval)
  show ?thesis
    using h
      get_weekly_sales_validation [of "\<lparr>year = 2024, month = 6, day = 3\<rparr>"
        "\<lparr>year = 2024, month = 6, day = 8\<rparr>" example_store]
      get_weekly_sales_validation [of "\<lparr>year = 2024, month = 6, day = 2\<rparr>"
        "\<lparr>year = 2024, month = 6, day = 7\<rparr>" example_store]
      get_weekly_sales_validation [of "\<lparr>year = 2024, month = 6, day = 2\<rparr>"
        "\<lparr>year = 2024, month = 6, day = 15\<rparr>" example_store]
      get_weekly_sales_validation [of "\<lparr>year = 2024, month = 6, day = 2\<rparr>"
        "\<lparr>year = 2024, month = 6, day = 8\<rparr>" example_store]
    by blast
qed

text \<open>
  C2 as stated fails on the detail of the third check: from Sunday 2 June 2024 to Saturday
  15 June 2024 the answer is not the 400 with the detail \<open>Dates must form a full week\<close>.
\<close>

theorem get_weekly_sales_detail_counterexample:
  "isoweekday \<lparr>year = 2024, month = 6, day = 2\<rparr> = 7 \<and>
   isoweekday \<lparr>year = 2024, month = 6, day = 15\<rparr> = 6 \<and>
   days_between \<lparr>year = 2024, month = 6, day = 15\<rparr> \<lparr>year = 2024, month = 6, day = 2\<rparr> = 13 \<and>
   get_weekly_sales \<lparr>year = 2024, month = 6, day = 2\<rparr> \<lparr>year = 2024, month = 6, day = 15\<rparr>
     example_store \<noteq> Inl (HTTPException 400 ''Dates must form a full week'')"
  by (simp add: get_weekly_sales_def calendar_eval full_week_detail_def)



subsection \<open>Monthly chart\<close>




declare str_nat.simps [simp del]

























subsection \<open>Yearly chart\<close>







lemma set_upto_1_12: "k \<in> set [1..12] \<longleftrightarrow> 1 \<le> k \<and> k \<le> (12::int)"
  by simp





subsection \<open>Top products\<close>

















subsection \<open>Summary\<close>























end
